theory Spec2Isabelle
  imports Main "HOL-Library.Sublist"
begin

section \<open>Data model\<close>

text \<open>
  The script \<^verbatim>\<open>05_Training_lab_student.py\<close> is glue around a tokenizer, a causal
  language model and a training loop that live in other packages. What the script itself
  computes is embedded here; every function of another package that it merely calls is a
  field of a record or an argument, with no property assumed of it. The training driver,
  whose module is not among the sources, is modelled from the spec where that is said.

  Python strings are lists of characters, and \<^verbatim>\<open>len\<close> is the length of the list.
  Token ids are natural numbers, a tensor of shape (rows, tokens) is a list of rows.
\<close>

datatype py_error = IndexError

type_synonym token = nat

text \<open>
  \<^verbatim>\<open>torch.device("cuda")\<close> and \<^verbatim>\<open>torch.device("cpu")\<close>.
\<close>

datatype torch_device = Cuda | Cpu

text \<open>
  The two tokenizer methods the script calls.
  \<^item> \<open>encode tok text n\<close> is
    \<^verbatim>\<open>tokenizer.encode(text, truncation=True, max_length=n)\<close>, the ids of one text;
    \<^verbatim>\<open>return_tensors="pt"\<close> wraps them as the only row of a tensor.
  \<^item> \<open>batch_decode tok rows\<close> is
    \<^verbatim>\<open>tokenizer.batch_decode(rows, skip_special_tokens=True)\<close>, one string per row.
\<close>

record tokenizer =
  encode :: "string \<Rightarrow> nat \<Rightarrow> token list"
  batch_decode :: "token list list \<Rightarrow> string list"

text \<open>
  A model handle, as far as inference reads it: \<open>generate m rows n\<close> is
  \<^verbatim>\<open>model.generate(input_ids=rows, max_length=n)\<close>, and \<open>model_device m\<close> is
  \<^verbatim>\<open>model.device\<close>.
\<close>

record model =
  model_device :: torch_device
  generate :: "token list list \<Rightarrow> nat \<Rightarrow> token list list"

section \<open>Device selection (lines 123 to 129)\<close>

definition device :: "int \<Rightarrow> torch_device" where
  "device device_count = (if device_count > 0 then Cuda else Cpu)"

section \<open>The inference helper (lines 143 to 165)\<close>

text \<open>
  Moving a tensor to a device keeps its entries.
\<close>

definition tensor_to :: "torch_device \<Rightarrow> token list list \<Rightarrow> token list list" where
  "tensor_to dev rows = rows"

text \<open>
  The script's own steps are the wrapping of the encoded row, the index \<^verbatim>\<open>[0]\<close> into the
  decoded batch (an \<^verbatim>\<open>IndexError\<close> when the batch is empty) and the slice
  \<^verbatim>\<open>[len(text):]\<close>. A Python slice that starts at or past the end of a string is the
  empty string, which is what \<^const>\<open>drop\<close> returns.
\<close>

definition inference :: "string \<Rightarrow> model \<Rightarrow> tokenizer \<Rightarrow> nat \<Rightarrow> nat \<Rightarrow> py_error + string" where
  "inference text model tok max_input_tokens max_output_tokens =
     (let input_ids = [encode tok text max_input_tokens];
          dev = model_device model;
          generated_tokens_with_prompt =
            generate model (tensor_to dev input_ids) max_output_tokens;
          generated_text_with_prompt = batch_decode tok generated_tokens_with_prompt
      in case generated_text_with_prompt of
           [] \<Rightarrow> Inl IndexError
         | first_text # _ \<Rightarrow> Inr (drop (length text) first_text))"

text \<open>
  The defaults of the two keyword arguments.
\<close>

definition default_max_input_tokens :: nat where
  "default_max_input_tokens = 1000"

definition default_max_output_tokens :: nat where
  "default_max_output_tokens = 100"

subsection \<open>A concrete tokenizer and two concrete models\<close>

text \<open>
  Instances on which the helper can be run: a tokenizer with one token per character
  (the character's code), which keeps the first \<open>n\<close> tokens when truncating, and a model
  that continues a prompt with one more copy of it, cut where the total length reaches
  \<open>max_length\<close> (a prompt that is already that long is returned as it is). A second
  model adds the token 63 (a question mark) and then compares the total length with
  \<open>max_length\<close>, until the length reaches it: a prompt that is already that long gets one
  token.
\<close>

definition char_tokenizer :: tokenizer where
  "char_tokenizer =
     \<lparr> encode = (\<lambda>text n. take n (map of_char text)),
       batch_decode = map (map char_of) \<rparr>"

definition echo_model :: model where
  "echo_model =
     \<lparr> model_device = Cpu,
       generate = (\<lambda>rows n. map (\<lambda>ids. take (max n (length ids)) (ids @ ids)) rows) \<rparr>"

definition one_more_model :: model where
  "one_more_model =
     \<lparr> model_device = Cpu,
       generate =
         (\<lambda>rows n. map (\<lambda>ids. ids @ replicate (max 1 (n - length ids)) 63) rows) \<rparr>"

section \<open>The moderation scan (lines 346 to 351)\<close>

text \<open>
  A row of the train split, with the two columns the scan reads.
\<close>

record example =
  question :: string
  answer :: string

definition moderation_phrase :: string where
  "moderation_phrase = ''keep the discussion relevant to Lamini''"

text \<open>
  Python's \<^verbatim>\<open>needle in haystack\<close> on strings: the needle starts at some position of the
  haystack. The empty needle is in every string.
\<close>

fun str_contains :: "string \<Rightarrow> string \<Rightarrow> bool" where
  "str_contains needle [] = (needle = [])"
| "str_contains needle (c # cs) = (prefix needle (c # cs) \<or> str_contains needle cs)"

text \<open>
  What the scan prints: a line per matching row (index, question, answer), and the count
  after the loop.
\<close>

datatype printed = Print_match nat string string | Print_count nat

text \<open>
  The loop over \<^verbatim>\<open>range(len(train_dataset))\<close>, with the running count and the lines
  printed so far as its state.
\<close>

function scan_loop :: "example list \<Rightarrow> nat \<Rightarrow> nat \<Rightarrow> printed list \<Rightarrow> nat \<times> printed list" where
  "scan_loop train_dataset i count printed_lines =
     (if i < length train_dataset then
        (if str_contains moderation_phrase (answer (train_dataset ! i)) then
           scan_loop train_dataset (Suc i) (count + 1)
             (printed_lines @
                [Print_match i (question (train_dataset ! i)) (answer (train_dataset ! i))])
         else scan_loop train_dataset (Suc i) count printed_lines)
      else (count, printed_lines))"
  by pat_completeness auto
termination
  by (relation "measure (\<lambda>(train_dataset, i, count, printed_lines). length train_dataset - i)") auto

definition moderation_scan :: "example list \<Rightarrow> printed list" where
  "moderation_scan train_dataset =
     (case scan_loop train_dataset 0 0 [] of
        (count, printed_lines) \<Rightarrow> printed_lines @ [Print_count count])"

section \<open>The report of the hosted evaluation (lines 392 to 399)\<close>

text \<open>
  The structure \<^verbatim>\<open>evaluate()\<close> returns, as the loop reads it: under \<^verbatim>\<open>eval_results\<close> a
  list of elements, each with an \<^verbatim>\<open>input\<close> and a list \<^verbatim>\<open>outputs\<close> of objects with an
  \<^verbatim>\<open>output\<close>. The keys \<^verbatim>\<open>input\<close> and \<^verbatim>\<open>output\<close> are the fields \<open>input_field\<close> and
  \<open>output_field\<close>; they hold strings, so the f-strings around them change nothing.
\<close>

record model_output =
  output_field :: string

record eval_result =
  input_field :: string
  outputs :: "model_output list"

record evaluation =
  eval_results :: "eval_result list"

text \<open>
  A row of the table, with the columns \<^verbatim>\<open>question\<close>, \<^verbatim>\<open>trained model\<close> and
  \<^verbatim>\<open>Base Model\<close>.
\<close>

record report_row =
  question_column :: string
  trained_model_column :: string
  base_model_column :: string

text \<open>
  Python's \<^verbatim>\<open>xs[i]\<close> for a non-negative literal index.
\<close>

definition list_get :: "'a list \<Rightarrow> nat \<Rightarrow> py_error + 'a" where
  "list_get xs i = (if i < length xs then Inr (xs ! i) else Inl IndexError)"

text \<open>
  The loop appends one row per element; an index error at any element ends it, and no
  table is built.
\<close>

fun report_loop :: "eval_result list \<Rightarrow> report_row list \<Rightarrow> py_error + report_row list" where
  "report_loop [] lofd = Inr lofd"
| "report_loop (e # es) lofd =
     (let q = input_field e in
      case list_get (outputs e) 0 of
        Inl err \<Rightarrow> Inl err
      | Inr first_output \<Rightarrow>
          (case list_get (outputs e) 1 of
             Inl err \<Rightarrow> Inl err
           | Inr second_output \<Rightarrow>
               (let at = output_field first_output;
                    ab = output_field second_output;
                    di = \<lparr> question_column = q, trained_model_column = at,
                           base_model_column = ab \<rparr>
                in report_loop es (lofd @ [di]))))"

definition build_report :: "evaluation \<Rightarrow> py_error + report_row list" where
  "build_report out = report_loop (eval_results out) []"

section \<open>The training configuration (lines 185 to 267)\<close>

text \<open>
  The integer, boolean and text options of \<^verbatim>\<open>TrainingArguments\<close> as the script sets
  them. The learning rate, a float, is left out: nothing below reads it.
\<close>

record training_arguments =
  num_train_epochs :: int
  max_steps :: int
  per_device_train_batch_size :: int
  output_dir :: string
  overwrite_output_dir :: bool
  disable_tqdm :: bool
  eval_steps :: int
  save_steps :: int
  warmup_steps :: int
  per_device_eval_batch_size :: int
  evaluation_strategy :: string
  logging_strategy :: string
  logging_steps :: int
  optim :: string
  gradient_accumulation_steps :: int
  gradient_checkpointing :: bool
  load_best_model_at_end :: bool
  save_total_limit :: int
  metric_for_best_model :: string
  greater_is_better :: bool

text \<open>
  The module-level \<^verbatim>\<open>max_steps = 3\<close> of line 185, and the directory name the f-string of
  line 191 builds from it.
\<close>

definition script_max_steps :: int where
  "script_max_steps = 3"

definition trained_model_name :: string where
  "trained_model_name = ''lamini_docs_3_steps''"

definition training_args :: training_arguments where
  "training_args =
     \<lparr> num_train_epochs = 1,
       max_steps = script_max_steps,
       per_device_train_batch_size = 1,
       output_dir = trained_model_name,
       overwrite_output_dir = False,
       disable_tqdm = False,
       eval_steps = 120,
       save_steps = 120,
       warmup_steps = 1,
       per_device_eval_batch_size = 1,
       evaluation_strategy = ''steps'',
       logging_strategy = ''steps'',
       logging_steps = 1,
       optim = ''adafactor'',
       gradient_accumulation_steps = 4,
       gradient_checkpointing = False,
       load_best_model_at_end = True,
       save_total_limit = 1,
       metric_for_best_model = ''eval_loss'',
       greater_is_better = False \<rparr>"

text \<open>
  The arguments of the \<^verbatim>\<open>Trainer(...)\<close> call of line 260, but for the float
  \<^verbatim>\<open>model_flops\<close>. The parameters of the model are of an abstract type \<open>'p\<close>, the rows of
  the splits of an abstract type \<open>'e\<close>.
\<close>

record ('p, 'e) trainer =
  trainer_model :: 'p
  total_steps :: int
  args :: training_arguments
  train_dataset :: "'e list"
  eval_dataset :: "'e list"

definition script_trainer :: "'p \<Rightarrow> 'e list \<Rightarrow> 'e list \<Rightarrow> ('p, 'e) trainer" where
  "script_trainer base_model train_split test_split =
     \<lparr> trainer_model = base_model,
       total_steps = script_max_steps,
       args = training_args,
       train_dataset = train_split,
       eval_dataset = test_split \<rparr>"

subsection \<open>The training driver\<close>

text \<open>
  Modelled from the spec: the class \<^verbatim>\<open>Trainer\<close> and its method \<^verbatim>\<open>train\<close> come from the
  module \<^verbatim>\<open>utilities\<close> (line 48), which is not among the sources. The spec, section 4.5:
  the step cap "overrides epoch count when non-negative", and \<^verbatim>\<open>train()\<close> "runs the
  configured number of optimization steps over the train split". The comment of lines 206
  and 207 says the same of \<^verbatim>\<open>max_steps\<close>. The number of optimization steps one epoch
  takes is an argument, as is the effect of one optimization step on the parameters.
\<close>

definition configured_steps :: "training_arguments \<Rightarrow> nat \<Rightarrow> nat" where
  "configured_steps a steps_per_epoch =
     (if 0 \<le> max_steps a then nat (max_steps a)
      else nat (num_train_epochs a) * steps_per_epoch)"

text \<open>
  Modelled from the spec: the state of a training run, which is not among the sources. It
  holds the parameters of the model handle, which the optimization steps change in place,
  and the number of optimization steps done.
\<close>

record 'p train_state =
  parameters :: 'p
  global_step :: nat

text \<open>
  Modelled from the spec: the loop of \<^verbatim>\<open>train()\<close>, which is not among the sources. One
  round is one optimization step on the train split; the state counts them.
\<close>

function train_loop ::
  "('e list \<Rightarrow> nat \<Rightarrow> 'p \<Rightarrow> 'p) \<Rightarrow> 'e list \<Rightarrow> nat \<Rightarrow> 'p train_state \<Rightarrow> 'p train_state" where
  "train_loop optimization_step train_split planned st =
     (if global_step st < planned then
        train_loop optimization_step train_split planned
          \<lparr> parameters = optimization_step train_split (global_step st) (parameters st),
            global_step = Suc (global_step st) \<rparr>
      else st)"
  by pat_completeness auto
termination
  by (relation "measure (\<lambda>(optimization_step, train_split, planned, st). planned - global_step st)")
    auto

text \<open>
  Modelled from the spec: \<^verbatim>\<open>trainer.train()\<close>, which is not among the sources.
\<close>

definition train ::
  "('p, 'e) trainer \<Rightarrow> ('e list \<Rightarrow> nat \<Rightarrow> 'p \<Rightarrow> 'p) \<Rightarrow> (nat \<Rightarrow> nat) \<Rightarrow> 'p train_state" where
  "train t optimization_step steps_per_epoch =
     train_loop optimization_step (train_dataset t)
       (configured_steps (args t) (steps_per_epoch (length (train_dataset t))))
       \<lparr> parameters = trainer_model t, global_step = 0 \<rparr>"

section \<open>Concrete inputs\<close>

text \<open>
  A train split of three rows, two of whose answers hold the moderation phrase.
\<close>

definition sample_split :: "example list" where
  "sample_split =
     [\<lparr> question = ''Why do cats purr?'',
        answer = ''We should keep the discussion relevant to Lamini.'' \<rparr>,
      \<lparr> question = ''What is Lamini?'', answer = ''An engine for language models.'' \<rparr>,
      \<lparr> question = ''Is Mars red?'',
        answer = ''I wish! Please keep the discussion relevant to Lamini'' \<rparr>]"

text \<open>
  An evaluation whose elements carry two and three outputs, and one whose second element
  carries a single output.
\<close>

definition sample_evaluation :: evaluation where
  "sample_evaluation =
     \<lparr> eval_results =
         [\<lparr> input_field = ''What is Lamini?'',
            outputs = [\<lparr> output_field = ''An engine.'' \<rparr>, \<lparr> output_field = ''What is'' \<rparr>] \<rparr>,
          \<lparr> input_field = ''Is it free?'',
            outputs = [\<lparr> output_field = ''There is a free tier.'' \<rparr>,
                       \<lparr> output_field = ''Is it'' \<rparr>,
                       \<lparr> output_field = ''unused'' \<rparr>] \<rparr>] \<rparr>"

definition short_evaluation :: evaluation where
  "short_evaluation =
     \<lparr> eval_results =
         [\<lparr> input_field = ''What is Lamini?'',
            outputs = [\<lparr> output_field = ''An engine.'' \<rparr>, \<lparr> output_field = ''What is'' \<rparr>] \<rparr>,
          \<lparr> input_field = ''Is it free?'',
            outputs = [\<lparr> output_field = ''There is a free tier.'' \<rparr>] \<rparr>] \<rparr>"

text \<open>
  The row the report loop builds from an element with at least two outputs.
\<close>

definition row_of :: "eval_result \<Rightarrow> report_row" where
  "row_of e =
     \<lparr> question_column = input_field e,
       trained_model_column = output_field (outputs e ! 0),
       base_model_column = output_field (outputs e ! 1) \<rparr>"

section \<open>Device selection: the case split\<close>

text \<open>
  C3. When the reported device count is zero the chosen device is the cpu, when it is one
  or more the chosen device is cuda, and no third device is ever chosen.
\<close>

theorem device_two_way:
  "(device_count = 0 \<longrightarrow> device device_count = Cpu)
   \<and> (1 \<le> device_count \<longrightarrow> device device_count = Cuda)
   \<and> (device device_count = Cpu \<or> device device_count = Cuda)"
  by (simp add: device_def)

theorem device_two_way_witness:
  "device 0 = Cpu \<and> device 1 = Cuda \<and> device 8 = Cuda"
  using device_two_way [of 0] device_two_way [of 1] device_two_way [of 8]
  by simp

section \<open>The inference helper: what it returns\<close>

lemma inference_empty_batch:
  "batch_decode tok (generate model [encode tok text max_in] max_out) = [] \<Longrightarrow>
     inference text model tok max_in max_out = Inl IndexError"
  by (simp add: inference_def tensor_to_def)

text \<open>
  C1. Whenever decoding yields a first string \<open>d\<close>, the helper returns what is left of \<open>d\<close>
  after its first \<open>length text\<close> characters, so \<open>d\<close> is those characters followed by the
  result; when \<open>d\<close> is no longer than the prompt text the result is the empty string, not
  an error.
\<close>

theorem inference_returns_suffix:
  assumes "batch_decode tok (generate model [encode tok text max_in] max_out) = d # ds"
  shows "inference text model tok max_in max_out = Inr (drop (length text) d)
     \<and> take (length text) d @ drop (length text) d = d
     \<and> (length d \<le> length text \<longrightarrow> inference text model tok max_in max_out = Inr [])"
  using assms by (simp add: inference_def tensor_to_def)

theorem inference_returns_suffix_witness:
  "batch_decode char_tokenizer (generate echo_model [encode char_tokenizer ''abc'' 2] 2)
     = ''ab'' # []
   \<and> inference ''abc'' echo_model char_tokenizer 2 2 = Inr []
   \<and> batch_decode char_tokenizer (generate echo_model [encode char_tokenizer ''ab'' 1000] 100)
     = ''abab'' # []
   \<and> inference ''ab'' echo_model char_tokenizer 1000 100 = Inr ''ab''"
proof -
  have a: "batch_decode char_tokenizer (generate echo_model [encode char_tokenizer ''abc'' 2] 2)
      = ''ab'' # []"
    by code_simp
  have b: "batch_decode char_tokenizer (generate echo_model [encode char_tokenizer ''ab'' 1000] 100)
      = ''abab'' # []"
    by code_simp
  show ?thesis
    using inference_returns_suffix [OF a] inference_returns_suffix [OF b] a b by simp
qed

text \<open>
  C2, as stated, fails: the prompt \<open>''ab''\<close> has two tokens, fewer than the default
  \<open>max_input_tokens\<close>, the model continues it with the same two characters, and the
  completion returned is \<open>''ab''\<close>, which has the prompt as a prefix.
\<close>

theorem prompt_prefix_counterexample:
  "length (encode char_tokenizer ''ab'' default_max_input_tokens) < default_max_input_tokens
   \<and> inference ''ab'' echo_model char_tokenizer default_max_input_tokens default_max_output_tokens
       = Inr ''ab''
   \<and> prefix ''ab'' ''ab''"
  by code_simp

lemma prefix_iff_take: "prefix xs ys = (take (length xs) ys = xs)"
proof
  assume "prefix xs ys"
  then obtain zs where "ys = xs @ zs"
    by (auto elim: prefixE)
  then show "take (length xs) ys = xs" by simp
next
  assume "take (length xs) ys = xs"
  then have "prefix xs ys = prefix (take (length xs) ys) ys" by simp
  then show "prefix xs ys" by (simp add: take_is_prefix)
qed

text \<open>
  C2, amended. For a text whose tokenization is shorter than \<open>max_input_tokens\<close>, and
  whenever decoding yields a first string \<open>d\<close>, the helper returns a completion that has
  the prompt text as a prefix exactly when \<open>d\<close> holds the prompt text again in the
  \<open>length text\<close> characters that follow its first \<open>length text\<close> characters. So the
  prompt is absent from the front of the completion when the model does not repeat it
  there, and present when it does.
\<close>

theorem completion_prompt_prefix_iff:
  assumes "length (encode tok text max_in) < max_in"
    and "batch_decode tok (generate model [encode tok text max_in] max_out) = d # ds"
  shows "(\<exists>r. inference text model tok max_in max_out = Inr r \<and> prefix text r)
           = (take (length text) (drop (length text) d) = text)"
proof -
  from assms(2) have r: "inference text model tok max_in max_out = Inr (drop (length text) d)"
    by (simp add: inference_def tensor_to_def)
  have "prefix text (drop (length text) d) = (take (length text) (drop (length text) d) = text)"
    by (rule prefix_iff_take)
  with r show ?thesis by simp
qed

theorem completion_prompt_prefix_iff_witness:
  "length (encode char_tokenizer ''ab'' 1000) < 1000
   \<and> batch_decode char_tokenizer (generate echo_model [encode char_tokenizer ''ab'' 1000] 100)
       = ''abab'' # []
   \<and> (\<exists>r. inference ''ab'' echo_model char_tokenizer 1000 100 = Inr r \<and> prefix ''ab'' r)
   \<and> batch_decode char_tokenizer (generate echo_model [encode char_tokenizer ''ab'' 1000] 3)
       = ''aba'' # []
   \<and> \<not> (\<exists>r. inference ''ab'' echo_model char_tokenizer 1000 3 = Inr r \<and> prefix ''ab'' r)"
proof -
  have n: "length (encode char_tokenizer ''ab'' 1000) < 1000" by code_simp
  have a: "batch_decode char_tokenizer (generate echo_model [encode char_tokenizer ''ab'' 1000] 100)
       = ''abab'' # []"
    by code_simp
  have b: "batch_decode char_tokenizer (generate echo_model [encode char_tokenizer ''ab'' 1000] 3)
       = ''aba'' # []"
    by code_simp
  from completion_prompt_prefix_iff [OF n a] completion_prompt_prefix_iff [OF n b] n a b
  show ?thesis by simp
qed

text \<open>
  C10, as stated, fails. The helper does hand \<open>max_output_tokens\<close> to the generation call
  as \<open>max_length\<close>, but it does nothing of its own for a prompt that already fills that
  length. The prompt \<open>''abc''\<close> has three tokens, \<open>max_output_tokens\<close> is two, the model
  adds one token before it compares the length with the bound, and the completion
  returned is \<open>''?''\<close>, not the empty string.
\<close>

theorem full_prompt_counterexample:
  "2 \<le> length (encode char_tokenizer ''abc'' 1000)
   \<and> generate one_more_model [encode char_tokenizer ''abc'' 1000] 2 = [[97, 98, 99, 63]]
   \<and> inference ''abc'' one_more_model char_tokenizer 1000 2 = Inr ''?''"
  by code_simp

text \<open>
  The same with the default bounds and a prompt of a hundred tokens.
\<close>

lemma full_prompt_defaults:
  "default_max_output_tokens
     \<le> length (encode char_tokenizer (replicate 100 CHR ''a'') default_max_input_tokens)
   \<and> generate one_more_model
       [encode char_tokenizer (replicate 100 CHR ''a'') default_max_input_tokens]
       default_max_output_tokens
     = [replicate 100 97 @ [63]]
   \<and> inference (replicate 100 CHR ''a'') one_more_model char_tokenizer
       default_max_input_tokens default_max_output_tokens = Inr ''?''"
  by code_simp

text \<open>
  C10, amended. The helper hands \<open>max_output_tokens\<close> to the generation call as
  \<open>max_length\<close>, beside the truncated encoding as the only row. For an input whose
  truncated encoding already holds \<open>max_output_tokens\<close> tokens or more, and whenever
  decoding the rows of that call yields a first string \<open>d\<close>, the completion is the empty
  string exactly when \<open>d\<close> is no longer than the prompt text. Whether tokens are added to
  such a prompt is left to the call.
\<close>

theorem inference_empty_iff_decoded_short:
  assumes "max_out \<le> length (encode tok text max_in)"
    and "batch_decode tok (generate model [encode tok text max_in] max_out) = d # ds"
  shows "(inference text model tok max_in max_out = Inr []) = (length d \<le> length text)"
  using assms(2) by (simp add: inference_def tensor_to_def)

theorem inference_empty_iff_decoded_short_witness:
  "2 \<le> length (encode char_tokenizer ''abc'' 1000)
   \<and> batch_decode char_tokenizer (generate echo_model [encode char_tokenizer ''abc'' 1000] 2)
       = ''abc'' # []
   \<and> inference ''abc'' echo_model char_tokenizer 1000 2 = Inr []
   \<and> batch_decode char_tokenizer (generate one_more_model [encode char_tokenizer ''abc'' 1000] 2)
       = ''abc?'' # []
   \<and> inference ''abc'' one_more_model char_tokenizer 1000 2 \<noteq> Inr []"
proof -
  have n: "2 \<le> length (encode char_tokenizer ''abc'' 1000)" by code_simp
  have a: "batch_decode char_tokenizer (generate echo_model [encode char_tokenizer ''abc'' 1000] 2)
       = ''abc'' # []"
    by code_simp
  have b: "batch_decode char_tokenizer (generate one_more_model [encode char_tokenizer ''abc'' 1000] 2)
       = ''abc?'' # []"
    by code_simp
  from inference_empty_iff_decoded_short [OF n a] inference_empty_iff_decoded_short [OF n b] n a b
  show ?thesis by simp
qed

section \<open>The moderation scan: the count\<close>

lemma str_contains_sublist: "str_contains needle s = sublist needle s"
  by (induction s) (simp_all add: sublist_Cons_right)

lemma scan_loop_count:
  "fst (scan_loop ds i c out) =
     c + length (filter (\<lambda>e. str_contains moderation_phrase (answer e)) (drop i ds))"
proof (induction ds i c out rule: scan_loop.induct)
  case (1 ds i c out)
  show ?case
  proof (cases "i < length ds")
    case True
    then have d: "drop i ds = ds ! i # drop (Suc i) ds"
      by (simp add: Cons_nth_drop_Suc)
    show ?thesis
    proof (cases "str_contains moderation_phrase (answer (ds ! i))")
      case True
      with \<open>i < length ds\<close> "1.IH"(1) d show ?thesis
        by (subst scan_loop.simps) simp
    next
      case False
      with \<open>i < length ds\<close> "1.IH"(2) d show ?thesis
        by (subst scan_loop.simps) simp
    qed
  next
    case False
    then show ?thesis
      by (subst scan_loop.simps) simp
  qed
qed

lemma moderation_scan_last:
  "last (moderation_scan ds) =
     Print_count (length (filter (\<lambda>e. str_contains moderation_phrase (answer e)) ds))"
proof -
  obtain c out where s: "scan_loop ds 0 0 [] = (c, out)"
    by (cases "scan_loop ds 0 0 []")
  from scan_loop_count [of ds 0 0 "[]"] s
  have "c = length (filter (\<lambda>e. str_contains moderation_phrase (answer e)) ds)"
    by simp
  with s show ?thesis
    by (simp add: moderation_scan_def)
qed

lemma sample_split_matches:
  "card {i. i < length sample_split \<and> sublist moderation_phrase (answer (sample_split ! i))} = 2"
proof -
  have "length (filter (\<lambda>e. sublist moderation_phrase (answer e)) sample_split) = 2"
    unfolding sample_split_def moderation_phrase_def by code_simp
  then show ?thesis
    by (simp add: length_filter_conv_card)
qed

text \<open>
  C4. When exactly \<open>k\<close> positions of the train split hold an answer of which the
  moderation phrase is a contiguous part, the last line the scan prints is the count \<open>k\<close>.
\<close>

theorem moderation_count:
  assumes "card {i. i < length ds \<and> sublist moderation_phrase (answer (ds ! i))} = k"
  shows "last (moderation_scan ds) = Print_count k"
  using assms
  by (simp add: moderation_scan_last str_contains_sublist length_filter_conv_card)

theorem moderation_count_witness:
  "card {i. i < length sample_split \<and> sublist moderation_phrase (answer (sample_split ! i))} = 2
   \<and> last (moderation_scan sample_split) = Print_count 2"
  using moderation_count [OF sample_split_matches] sample_split_matches by simp

section \<open>The report: one row per element\<close>

lemma report_loop_ok:
  "\<forall>e \<in> set es. 2 \<le> length (outputs e) \<Longrightarrow>
     report_loop es lofd = Inr (lofd @ map row_of es)"
  by (induction es arbitrary: lofd) (auto simp: list_get_def row_of_def)

lemma report_loop_short:
  "\<exists>e \<in> set es. length (outputs e) < 2 \<Longrightarrow> report_loop es lofd = Inl IndexError"
proof (induction es arbitrary: lofd)
  case Nil
  then show ?case by simp
next
  case (Cons e es)
  show ?case
  proof (cases "length (outputs e) < 2")
    case True
    then show ?thesis
      by (cases "outputs e") (simp_all add: list_get_def)
  next
    case False
    with Cons.prems have "\<exists>e \<in> set es. length (outputs e) < 2" by auto
    with Cons.IH False show ?thesis
      by (simp add: list_get_def)
  qed
qed

text \<open>
  C9. When every element of \<open>eval_results\<close> carries at least two outputs, the loop builds
  one row per element, in order, whose question is the element's input, whose trained-model
  column is the output of the element's first entry of \<open>outputs\<close> and whose base-model
  column is the output of its second entry. The two outputs are presupposed: when some
  element carries fewer, the loop ends in an index error and builds no table.
\<close>

theorem report_rows:
  "((\<forall>e \<in> set (eval_results out). 2 \<le> length (outputs e)) \<longrightarrow>
      (\<exists>rows. build_report out = Inr rows
         \<and> length rows = length (eval_results out)
         \<and> (\<forall>i < length (eval_results out).
               question_column (rows ! i) = input_field (eval_results out ! i)
             \<and> trained_model_column (rows ! i) = output_field (outputs (eval_results out ! i) ! 0)
             \<and> base_model_column (rows ! i) = output_field (outputs (eval_results out ! i) ! 1))))
   \<and> ((\<exists>e \<in> set (eval_results out). length (outputs e) < 2) \<longrightarrow>
        build_report out = Inl IndexError)"
proof (intro conjI impI)
  assume "\<forall>e \<in> set (eval_results out). 2 \<le> length (outputs e)"
  then have "build_report out = Inr (map row_of (eval_results out))"
    by (simp add: build_report_def report_loop_ok)
  then show "\<exists>rows. build_report out = Inr rows
         \<and> length rows = length (eval_results out)
         \<and> (\<forall>i < length (eval_results out).
               question_column (rows ! i) = input_field (eval_results out ! i)
             \<and> trained_model_column (rows ! i) = output_field (outputs (eval_results out ! i) ! 0)
             \<and> base_model_column (rows ! i) = output_field (outputs (eval_results out ! i) ! 1))"
    by (simp add: row_of_def)
next
  assume "\<exists>e \<in> set (eval_results out). length (outputs e) < 2"
  then show "build_report out = Inl IndexError"
    by (simp add: build_report_def report_loop_short)
qed

theorem report_rows_witness:
  "(\<exists>rows. build_report sample_evaluation = Inr rows
      \<and> length rows = 2
      \<and> question_column (rows ! 0) = ''What is Lamini?''
      \<and> trained_model_column (rows ! 0) = ''An engine.''
      \<and> base_model_column (rows ! 0) = ''What is''
      \<and> question_column (rows ! 1) = ''Is it free?''
      \<and> trained_model_column (rows ! 1) = ''There is a free tier.''
      \<and> base_model_column (rows ! 1) = ''Is it'')
   \<and> build_report short_evaluation = Inl IndexError"
proof -
  have a: "\<forall>e \<in> set (eval_results sample_evaluation). 2 \<le> length (outputs e)"
    by (simp add: sample_evaluation_def)
  have b: "\<exists>e \<in> set (eval_results short_evaluation). length (outputs e) < 2"
    by (simp add: short_evaluation_def)
  from report_rows [of short_evaluation] b
  have s: "build_report short_evaluation = Inl IndexError"
    by blast
  from report_rows [of sample_evaluation] a obtain rows where
    r: "build_report sample_evaluation = Inr rows"
      "length rows = length (eval_results sample_evaluation)"
      "\<forall>i < length (eval_results sample_evaluation).
         question_column (rows ! i) = input_field (eval_results sample_evaluation ! i)
         \<and> trained_model_column (rows ! i)
             = output_field (outputs (eval_results sample_evaluation ! i) ! 0)
         \<and> base_model_column (rows ! i)
             = output_field (outputs (eval_results sample_evaluation ! i) ! 1)"
    by blast
  have n: "length (eval_results sample_evaluation) = 2"
    by (simp add: sample_evaluation_def)
  from r(3) n have r0:
    "question_column (rows ! 0) = input_field (eval_results sample_evaluation ! 0)
     \<and> trained_model_column (rows ! 0)
         = output_field (outputs (eval_results sample_evaluation ! 0) ! 0)
     \<and> base_model_column (rows ! 0)
         = output_field (outputs (eval_results sample_evaluation ! 0) ! 1)"
    by simp
  from r(3) n have r1:
    "question_column (rows ! 1) = input_field (eval_results sample_evaluation ! 1)
     \<and> trained_model_column (rows ! 1)
         = output_field (outputs (eval_results sample_evaluation ! 1) ! 0)
     \<and> base_model_column (rows ! 1)
         = output_field (outputs (eval_results sample_evaluation ! 1) ! 1)"
    by simp
  from r(1) r(2) n r0 r1 s show ?thesis
    by (simp add: sample_evaluation_def)
qed

section \<open>The training driver: the number of steps\<close>

lemma train_loop_step:
  "global_step st < planned \<Longrightarrow>
     train_loop opt ds planned st =
       train_loop opt ds planned
         \<lparr> parameters = opt ds (global_step st) (parameters st),
           global_step = Suc (global_step st) \<rparr>"
  by (subst train_loop.simps) simp

lemma train_loop_stop:
  "\<not> global_step st < planned \<Longrightarrow> train_loop opt ds planned st = st"
  by (subst train_loop.simps) simp

lemma train_loop_steps:
  "global_step (train_loop opt ds planned st) = max planned (global_step st)"
proof (induction opt ds planned st rule: train_loop.induct)
  case (1 opt ds planned st)
  show ?case
  proof (cases "global_step st < planned")
    case True
    with "1.IH" show ?thesis
      by (simp add: train_loop_step del: train_loop.simps)
  next
    case False
    then show ?thesis
      by (simp add: train_loop_stop del: train_loop.simps)
  qed
qed

lemma configured_steps_script: "configured_steps training_args n = 3"
  by (simp add: configured_steps_def training_args_def script_max_steps_def)

text \<open>
  C7. With the script's training arguments (\<open>max_steps = 3\<close> beside
  \<open>num_train_epochs = 1\<close>) and a train split that is not empty, training ends after
  exactly three optimization steps, whatever the number of steps an epoch takes: the step
  counter is three and the parameters are the base model's after the steps numbered 0, 1
  and 2.
\<close>

theorem train_three_steps:
  assumes "train_split \<noteq> []"
  shows "global_step (train (script_trainer base_model train_split test_split)
            optimization_step steps_per_epoch) = 3
    \<and> parameters (train (script_trainer base_model train_split test_split)
            optimization_step steps_per_epoch)
        = optimization_step train_split 2
            (optimization_step train_split 1 (optimization_step train_split 0 base_model))"
proof -
  have g: "global_step (train (script_trainer base_model train_split test_split)
            optimization_step steps_per_epoch) = 3"
    by (simp add: train_def script_trainer_def configured_steps_script train_loop_steps)
  have p: "parameters (train (script_trainer base_model train_split test_split)
            optimization_step steps_per_epoch)
        = optimization_step train_split 2
            (optimization_step train_split 1 (optimization_step train_split 0 base_model))"
    by (simp add: train_def script_trainer_def configured_steps_script train_loop_step
        train_loop_stop numeral_2_eq_2 del: train_loop.simps)
  from g p show ?thesis by simp
qed

theorem train_three_steps_witness:
  "[''What is Lamini?''] \<noteq> []
   \<and> global_step (train (script_trainer (0::nat) [''What is Lamini?''] [''Is it free?''])
        (\<lambda>split step p. p + length split) (\<lambda>n. 7 * n)) = 3
   \<and> parameters (train (script_trainer (0::nat) [''What is Lamini?''] [''Is it free?''])
        (\<lambda>split step p. p + length split) (\<lambda>n. 7 * n)) = 3"
proof -
  have ne: "[''What is Lamini?''] \<noteq> []" by simp
  from train_three_steps [OF ne, of "0::nat" "[''Is it free?'']"
      "\<lambda>split step p. p + length split" "\<lambda>n. 7 * n"]
  show ?thesis by simp
qed

end
